theory Spec2Isabelle
  imports Main "HOL-Library.Sublist" "HOL-Library.AList"
begin

section \<open>Strings\<close>

text \<open>
  Python strings are modelled as \<open>string\<close>, read as ASCII text. \<open>str.lower\<close> and
  \<open>str.upper\<close> map the 26 ASCII letters and leave every other character alone;
  \<open>str.strip\<close> removes the ASCII characters for which \<open>str.isspace\<close> holds
  (codes 9 to 13 and 28 to 32) from both ends. The test \<open>a in b\<close> on two strings is
  \<^const>\<open>sublist\<close>: \<open>a\<close> occurs in \<open>b\<close> as a contiguous run.
\<close>

definition is_space :: "char \<Rightarrow> bool" where
  "is_space c = (let n = (of_char c :: nat) in (9 \<le> n \<and> n \<le> 13) \<or> (28 \<le> n \<and> n \<le> 32))"

definition lower_char :: "char \<Rightarrow> char" where
  "lower_char c = (let n = (of_char c :: nat) in if 65 \<le> n \<and> n \<le> 90 then char_of (n + 32) else c)"

definition upper_char :: "char \<Rightarrow> char" where
  "upper_char c = (let n = (of_char c :: nat) in if 97 \<le> n \<and> n \<le> 122 then char_of (n - 32) else c)"

definition lower :: "string \<Rightarrow> string" where
  "lower s = map lower_char s"

definition upper :: "string \<Rightarrow> string" where
  "upper s = map upper_char s"

definition strip :: "string \<Rightarrow> string" where
  "strip s = rev (dropWhile is_space (rev (dropWhile is_space s)))"

section \<open>Data\<close>

text \<open>
  A ticker of the JSON file (\<open>create_search_json\<close> writes the four keys), and the
  \<open>{"symbol", "name"}\<close> dictionary that the service returns.
\<close>

record ticker =
  ticker_id :: int
  ticker_symbol :: string
  ticker_name :: string
  searchTerm :: string

record stock =
  symbol :: string
  name :: string

text \<open>
  The parsed \<open>nse_tickers_search.json\<close>. Every key may be absent. A dictionary is an
  association list in insertion order, which is the order \<open>.items()\<close> iterates in.
\<close>

record nse_json =
  total :: "int option"
  tickers :: "ticker list option"
  symbolIndex :: "(string \<times> int) list option"
  nameIndex :: "(string \<times> int list) list option"

text \<open>
  The module's globals. The clock (\<open>time.time()\<close>) is read in whole seconds.
\<close>

record state =
  json_data :: "nse_json option"
  nse_stocks_cache :: "stock list option"
  cache_timestamp :: "int option"

datatype error = IndexError

section \<open>Operations\<close>

text \<open>\<open>xs[i]\<close> on a Python list: a negative index counts from the end.\<close>

definition getitem :: "'a list \<Rightarrow> int \<Rightarrow> error + 'a" where
  "getitem xs i =
     (let n = int (length xs) in
      if 0 \<le> i \<and> i < n then Inr (xs ! nat i)
      else if - n \<le> i \<and> i < 0 then Inr (xs ! nat (n + i))
      else Inl IndexError)"

text \<open>
  \<open>load_nse_json_data\<close>: the first argument is what reading and parsing the file gives
  (\<open>None\<close> when no path exists or reading fails).
\<close>

definition load_nse_json_data :: "nse_json option \<Rightarrow> state \<Rightarrow> nse_json option \<times> state" where
  "load_nse_json_data file st =
     (case json_data st of
        Some j \<Rightarrow> (Some j, st)
      | None \<Rightarrow>
          (case file of
             None \<Rightarrow> (None, st)
           | Some j \<Rightarrow> (Some j, st\<lparr>json_data := Some j\<rparr>)))"

definition get_fallback_stocks :: "stock list" where
  "get_fallback_stocks =
     [\<lparr>symbol = ''RELIANCE'', name = ''Reliance Industries Limited''\<rparr>,
      \<lparr>symbol = ''TCS'', name = ''Tata Consultancy Services Limited''\<rparr>,
      \<lparr>symbol = ''HDFCBANK'', name = ''HDFC Bank Limited''\<rparr>,
      \<lparr>symbol = ''INFY'', name = ''Infosys Limited''\<rparr>,
      \<lparr>symbol = ''ICICIBANK'', name = ''ICICI Bank Limited''\<rparr>,
      \<lparr>symbol = ''HINDUNILVR'', name = ''Hindustan Unilever Limited''\<rparr>,
      \<lparr>symbol = ''SBIN'', name = ''State Bank of India''\<rparr>,
      \<lparr>symbol = ''BHARTIARTL'', name = ''Bharti Airtel Limited''\<rparr>,
      \<lparr>symbol = ''ITC'', name = ''ITC Limited''\<rparr>,
      \<lparr>symbol = ''LT'', name = ''Larsen & Toubro Limited''\<rparr>,
      \<lparr>symbol = ''WIPRO'', name = ''Wipro Limited''\<rparr>,
      \<lparr>symbol = ''TITAN'', name = ''Titan Company Limited''\<rparr>,
      \<lparr>symbol = ''HCLTECH'', name = ''HCL Technologies Limited''\<rparr>,
      \<lparr>symbol = ''TECHM'', name = ''Tech Mahindra Limited''\<rparr>,
      \<lparr>symbol = ''AXISBANK'', name = ''Axis Bank Limited''\<rparr>,
      \<lparr>symbol = ''ULTRACEMCO'', name = ''Ultratech Cement Limited''\<rparr>,
      \<lparr>symbol = ''ASIANPAINT'', name = ''Asian Paints Limited''\<rparr>,
      \<lparr>symbol = ''MARUTI'', name = ''Maruti Suzuki India Limited''\<rparr>,
      \<lparr>symbol = ''BAJAJ-AUTO'', name = ''Bajaj Auto Limited''\<rparr>,
      \<lparr>symbol = ''DRREDDY'', name = ''Dr. Reddy'' @ [CHR 0x27] @ ''s Laboratories Limited''\<rparr>,
      \<lparr>symbol = ''COALINDIA'', name = ''Coal India Limited''\<rparr>,
      \<lparr>symbol = ''POWERGRID'', name = ''Power Grid Corporation of India Limited''\<rparr>,
      \<lparr>symbol = ''JSWSTEEL'', name = ''JSW Steel Limited''\<rparr>,
      \<lparr>symbol = ''TATASTEEL'', name = ''Tata Steel Limited''\<rparr>,
      \<lparr>symbol = ''DIVISLAB'', name = ''Divi'' @ [CHR 0x27] @ ''s Laboratories Limited''\<rparr>]"

text \<open>The list comprehension of \<open>fetch_nse_equity_list\<close> and the dictionary built at line 203.\<close>

definition stock_of :: "ticker \<Rightarrow> stock" where
  "stock_of t = \<lparr>symbol = ticker_symbol t, name = ticker_name t\<rparr>"

text \<open>\<open>fetch_nse_equity_list\<close>: \<open>now\<close> is the clock's reading.\<close>

definition fetch_nse_equity_list :: "nse_json option \<Rightarrow> int \<Rightarrow> state \<Rightarrow> stock list \<times> state" where
  "fetch_nse_equity_list file now st =
     (let reload =
        (case load_nse_json_data file st of (jd, st1) \<Rightarrow>
           (case jd of
              None \<Rightarrow> (get_fallback_stocks, st1)
            | Some j \<Rightarrow>
                (case tickers j of
                   None \<Rightarrow> (get_fallback_stocks, st1)
                 | Some ts \<Rightarrow>
                     (let stocks = map stock_of ts
                      in (stocks, st1\<lparr>nse_stocks_cache := Some stocks, cache_timestamp := Some now\<rparr>)))))
      in case nse_stocks_cache st of
           None \<Rightarrow> reload
         | Some cached \<Rightarrow>
             (case cache_timestamp st of
                None \<Rightarrow> reload
              | Some stamp \<Rightarrow> if now - stamp < 43200 then (cached, st) else reload))"

text \<open>
  \<open>_search_in_list\<close>: the loop appends each match and breaks once ten are collected.
  \<open>results\<close> is the list built so far.
\<close>

fun search_loop :: "string \<Rightarrow> stock list \<Rightarrow> stock list \<Rightarrow> stock list" where
  "search_loop query_lower [] results = results"
| "search_loop query_lower (s # rest) results =
     (if sublist query_lower (lower (symbol s)) \<or> sublist query_lower (lower (name s))
      then (let results' = results @ [s]
            in if length results' \<ge> 10 then results' else search_loop query_lower rest results')
      else search_loop query_lower rest results)"

definition search_in_list :: "string \<Rightarrow> stock list \<Rightarrow> stock list" where
  "search_in_list query_lower nse_stocks =
     (if nse_stocks = [] then [] else search_loop query_lower nse_stocks [])"

text \<open>The three tiers of \<open>search_nse_stocks\<close>, each a loop over \<open>results_set\<close>.\<close>

definition exact_symbol_match :: "string \<Rightarrow> (string \<times> int) list \<Rightarrow> ticker list \<Rightarrow> int set \<Rightarrow> int set" where
  "exact_symbol_match query_upper symbol_index ts results_set =
     (case map_of symbol_index query_upper of
        None \<Rightarrow> results_set
      | Some tid \<Rightarrow> if tid < int (length ts) then insert tid results_set else results_set)"

fun partial_symbol_match :: "string \<Rightarrow> (string \<times> int) list \<Rightarrow> int set \<Rightarrow> int set" where
  "partial_symbol_match query_lower [] results_set = results_set"
| "partial_symbol_match query_lower ((skey, tid) # rest) results_set =
     (if sublist query_lower (lower skey)
      then (let results_set' = insert tid results_set
            in if card results_set' \<ge> 20 then results_set'
               else partial_symbol_match query_lower rest results_set')
      else partial_symbol_match query_lower rest results_set)"

text \<open>The inner loop of tier 3: its \<open>break\<close> leaves this loop only.\<close>

fun add_ticker_ids :: "int list \<Rightarrow> int set \<Rightarrow> int set" where
  "add_ticker_ids [] results_set = results_set"
| "add_ticker_ids (tid # rest) results_set =
     (let results_set' = insert tid results_set
      in if card results_set' \<ge> 20 then results_set' else add_ticker_ids rest results_set')"

fun partial_name_match :: "string \<Rightarrow> (string \<times> int list) list \<Rightarrow> int set \<Rightarrow> int set" where
  "partial_name_match query_lower [] results_set = results_set"
| "partial_name_match query_lower ((nm, ticker_ids) # rest) results_set =
     partial_name_match query_lower rest
       (if sublist query_lower nm then add_ticker_ids ticker_ids results_set else results_set)"

text \<open>
  \<open>results_set\<close> as it stands when the three tiers have run (lines 170 to 196). The
  \<open>.get\<close> calls put an empty list or dictionary in the place of a missing key.
\<close>

definition accumulated :: "string \<Rightarrow> nse_json \<Rightarrow> int set" where
  "accumulated query j =
     (let query_lower = strip (lower query);
          ts = (case tickers j of None \<Rightarrow> [] | Some ts \<Rightarrow> ts);
          symbol_index = (case symbolIndex j of None \<Rightarrow> [] | Some si \<Rightarrow> si);
          name_index = (case nameIndex j of None \<Rightarrow> [] | Some ni \<Rightarrow> ni);
          query_upper = upper query
      in partial_name_match query_lower name_index
           (partial_symbol_match query_lower symbol_index
              (exact_symbol_match query_upper symbol_index ts {})))"

text \<open>The loop at lines 199 to 206; \<open>tickers[ticker_id]\<close> may raise.\<close>

fun convert_results :: "ticker list \<Rightarrow> int list \<Rightarrow> error + stock list" where
  "convert_results ts [] = Inr []"
| "convert_results ts (tid # rest) =
     (if tid < int (length ts)
      then (case getitem ts tid of
              Inl e \<Rightarrow> Inl e
            | Inr t \<Rightarrow>
                (case convert_results ts rest of
                   Inl e \<Rightarrow> Inl e
                 | Inr results \<Rightarrow> Inr (stock_of t # results)))
      else convert_results ts rest)"

text \<open>The two lines that the missing-data branch and the exception handler share.\<close>

definition fallback_search :: "nse_json option \<Rightarrow> int \<Rightarrow> string \<Rightarrow> state \<Rightarrow> stock list \<times> state" where
  "fallback_search file now query_lower st =
     (case fetch_nse_equity_list file now st of
        (nse_stocks, st') \<Rightarrow> (search_in_list query_lower nse_stocks, st'))"

definition search_nse_stocks :: "nse_json option \<Rightarrow> int \<Rightarrow> string \<Rightarrow> state \<Rightarrow> stock list \<times> state" where
  "search_nse_stocks file now query st =
     (if query = [] \<or> length (strip query) < 1 then ([], st)
      else
        (let query_lower = strip (lower query) in
         case load_nse_json_data file st of (jd, st1) \<Rightarrow>
           (case jd of
              None \<Rightarrow> fallback_search file now query_lower st1
            | Some j \<Rightarrow>
                (case tickers j of
                   None \<Rightarrow> fallback_search file now query_lower st1
                 | Some ts \<Rightarrow>
                     (case convert_results ts (sorted_list_of_set (accumulated query j)) of
                        Inl e \<Rightarrow> fallback_search file now query_lower st1
                      | Inr results \<Rightarrow> (take 10 results, st1))))))"

text \<open>\<open>get_nse_indices\<close>.\<close>

definition get_nse_indices :: "nse_json option \<Rightarrow> int \<Rightarrow> state \<Rightarrow> stock list \<times> state" where
  "get_nse_indices file now st =
     (case fetch_nse_equity_list file now st of
        (all_stocks, st') \<Rightarrow>
          if all_stocks = [] then (get_fallback_stocks, st') else (take 25 all_stocks, st'))"

section \<open>Building the file\<close>

text \<open>
  \<open>create_search_json\<close>, on the rows of the CSV file (each row its \<open>symbol\<close> and
  \<open>name\<close> columns): the value that is written to \<open>nse_tickers_search.json\<close>.
  \<^const>\<open>AList.update\<close> is the assignment \<open>d[k] = v\<close>: an existing key keeps its
  place, a new key goes to the end.
\<close>

fun rows_loop :: "(string \<times> string) list \<Rightarrow> int \<Rightarrow> ticker list \<Rightarrow> (string \<times> int) list \<Rightarrow>
    (string \<times> int list) list \<Rightarrow> nse_json" where
  "rows_loop [] idx ts symbol_index name_index =
     \<lparr>total = Some (int (length ts)), tickers = Some ts,
      symbolIndex = Some symbol_index, nameIndex = Some name_index\<rparr>"
| "rows_loop ((row_symbol, row_name) # rest) idx ts symbol_index name_index =
     (let sy = upper row_symbol;
          ticker_obj = \<lparr>ticker_id = idx, ticker_symbol = sy, ticker_name = row_name,
                        searchTerm = lower (sy @ '' '' @ row_name)\<rparr>;
          name_lower = lower row_name;
          name_index' = (case map_of name_index name_lower of
                           None \<Rightarrow> AList.update name_lower [] name_index
                         | Some ids \<Rightarrow> name_index);
          name_index'' = (case map_of name_index' name_lower of
                            None \<Rightarrow> name_index'
                          | Some ids \<Rightarrow> AList.update name_lower (ids @ [idx]) name_index')
      in rows_loop rest (idx + 1) (ts @ [ticker_obj]) (AList.update sy idx symbol_index) name_index'')"

definition create_search_json :: "(string \<times> string) list \<Rightarrow> nse_json" where
  "create_search_json rows = rows_loop rows 0 [] [] []"

section \<open>States and inputs\<close>

text \<open>The globals as the module sets them when it is imported.\<close>

definition initial_state :: state where
  "initial_state = \<lparr>json_data = None, nse_stocks_cache = None, cache_timestamp = None\<rparr>"

text \<open>
  The cache, when it is set, holds the conversion of the ticker list of the JSON data that
  the module keeps. Every call below keeps this, and \<^const>\<open>initial_state\<close> has it.
\<close>

definition cache_consistent :: "state \<Rightarrow> bool" where
  "cache_consistent st =
     (case nse_stocks_cache st of
        None \<Rightarrow> True
      | Some cached \<Rightarrow>
          (case json_data st of
             None \<Rightarrow> False
           | Some j \<Rightarrow>
               (case tickers j of
                  None \<Rightarrow> False
                | Some ts \<Rightarrow> cached = map stock_of ts)))"

text \<open>The two rows of the scenario in section 8 of the specification.\<close>

definition sample_rows :: "(string \<times> string) list" where
  "sample_rows =
     [(''TCS'', ''Tata Consultancy Services Limited''),
      (''RELIANCE'', ''Reliance Industries Limited'')]"

text \<open>Twenty rows \<open>TCSA\<close> to \<open>TCST\<close>, named \<open>Firm A\<close> to \<open>Firm T\<close>.\<close>

definition crowd_rows :: "(string \<times> string) list" where
  "crowd_rows = map (\<lambda>c. (''TCS'' @ [c], ''Firm '' @ [c])) ''ABCDEFGHIJKLMNOPQRST''"

definition tcs_row :: "string \<times> string" where
  "tcs_row = (''TCS'', ''Tata Consultancy Services Limited'')"

text \<open>Twenty-one rows \<open>NA\<close> to \<open>NU\<close>, named \<open>Co A\<close> to \<open>Co U\<close>.\<close>

definition company_rows :: "(string \<times> string) list" where
  "company_rows = map (\<lambda>c. (''N'' @ [c], ''Co '' @ [c])) ''ABCDEFGHIJKLMNOPQRSTU''"

text \<open>
  The file of \<^const>\<open>sample_rows\<close> with a symbol index edited by hand: one more key,
  with an id of the editor's choice.
\<close>

definition edited_json :: "string \<Rightarrow> int \<Rightarrow> nse_json" where
  "edited_json key tid =
     (create_search_json sample_rows)
       \<lparr>symbolIndex := Some [(''TCS'', 0), (''RELIANCE'', 1), (key, tid)]\<rparr>"

section \<open>Evaluating the string functions\<close>

text \<open>
  The three character functions, bit by bit: code 65 to 90 is \<open>010\<close> followed by five
  bits that read 1 to 26, and the lowercase letter sets bit 5. These equations replace the
  arithmetic on \<^const>\<open>of_char\<close> when a term is evaluated.
\<close>

lemma lower_char_code [code]:
  "lower_char (Char b0 b1 b2 b3 b4 b5 b6 b7) =
     (if \<not> b7 \<and> b6 \<and> \<not> b5 \<and> (b0 \<or> b1 \<or> b2 \<or> b3 \<or> b4) \<and> \<not> (b4 \<and> b3 \<and> (b2 \<or> (b1 \<and> b0)))
      then Char b0 b1 b2 b3 b4 True b6 b7 else Char b0 b1 b2 b3 b4 b5 b6 b7)"
  by (cases b0; cases b1; cases b2; cases b3; cases b4; cases b5; cases b6; cases b7)
     (simp_all add: lower_char_def char_of_def bit_Suc_0_iff)

lemma upper_char_code [code]:
  "upper_char (Char b0 b1 b2 b3 b4 b5 b6 b7) =
     (if \<not> b7 \<and> b6 \<and> b5 \<and> (b0 \<or> b1 \<or> b2 \<or> b3 \<or> b4) \<and> \<not> (b4 \<and> b3 \<and> (b2 \<or> (b1 \<and> b0)))
      then Char b0 b1 b2 b3 b4 False b6 b7 else Char b0 b1 b2 b3 b4 b5 b6 b7)"
  by (cases b0; cases b1; cases b2; cases b3; cases b4; cases b5; cases b6; cases b7)
     (simp_all add: upper_char_def char_of_def bit_Suc_0_iff)

lemma is_space_code [code]:
  "is_space (Char b0 b1 b2 b3 b4 b5 b6 b7) =
     (\<not> b7 \<and> \<not> b6 \<and>
      ((\<not> b5 \<and> \<not> b4 \<and> b3 \<and> ((\<not> b2 \<and> (b0 \<or> b1)) \<or> (b2 \<and> \<not> b1)))
       \<or> (\<not> b5 \<and> b4 \<and> b3 \<and> b2)
       \<or> (b5 \<and> \<not> b4 \<and> \<not> b3 \<and> \<not> b2 \<and> \<not> b1 \<and> \<not> b0)))"
  by (cases b0; cases b1; cases b2; cases b3; cases b4; cases b5; cases b6; cases b7)
     (simp_all add: is_space_def)

section \<open>Properties of the loops\<close>

lemma strip_Nil_iff: "length (strip q) < 1 \<longleftrightarrow> strip q = []"
  by (cases "strip q") simp_all

lemma strip_Nil [simp]: "strip [] = []"
  by (simp add: strip_def)

lemma search_loop_take:
  "length results < 10 \<Longrightarrow>
   search_loop q xs results =
     take 10 (results @ filter (\<lambda>s. sublist q (lower (symbol s)) \<or> sublist q (lower (name s))) xs)"
proof (induction xs arbitrary: results)
  case Nil
  then show ?case by simp
next
  case (Cons s xs)
  show ?case
  proof (cases "sublist q (lower (symbol s)) \<or> sublist q (lower (name s))")
    case False
    then show ?thesis using Cons by simp
  next
    case True
    show ?thesis
    proof (cases "length results = 9")
      case True
      then show ?thesis using \<open>sublist q (lower (symbol s)) \<or> sublist q (lower (name s))\<close>
        by (auto simp: Let_def)
    next
      case False
      then have "length (results @ [s]) < 10" using Cons.prems by simp
      from Cons.IH[OF this] show ?thesis using True False Cons.prems by (auto simp: Let_def)
    qed
  qed
qed

lemma search_in_list_take:
  "search_in_list q stocks =
     take 10 (filter (\<lambda>s. sublist q (lower (symbol s)) \<or> sublist q (lower (name s))) stocks)"
  using search_loop_take[of "[]" q stocks] by (simp add: search_in_list_def)

text \<open>The tiers only add ids, and keep the set finite.\<close>

lemma partial_symbol_match_mono: "rs \<subseteq> partial_symbol_match q si rs"
  by (induction q si rs rule: partial_symbol_match.induct) (auto simp: Let_def)

lemma add_ticker_ids_mono: "rs \<subseteq> add_ticker_ids ids rs"
  by (induction ids rs rule: add_ticker_ids.induct) (auto simp: Let_def)

lemma partial_name_match_mono: "rs \<subseteq> partial_name_match q ni rs"
proof (induction q ni rs rule: partial_name_match.induct)
  case (1 q rs)
  then show ?case by simp
next
  case (2 q nm ids rest rs)
  then show ?case using add_ticker_ids_mono[of rs ids] by (auto split: if_splits)
qed

lemma partial_symbol_match_finite: "finite rs \<Longrightarrow> finite (partial_symbol_match q si rs)"
  by (induction q si rs rule: partial_symbol_match.induct) (auto simp: Let_def)

lemma add_ticker_ids_finite: "finite rs \<Longrightarrow> finite (add_ticker_ids ids rs)"
  by (induction ids rs rule: add_ticker_ids.induct) (auto simp: Let_def)

lemma partial_name_match_finite: "finite rs \<Longrightarrow> finite (partial_name_match q ni rs)"
  by (induction q ni rs rule: partial_name_match.induct) (auto simp: add_ticker_ids_finite)

lemma exact_symbol_match_finite: "finite rs \<Longrightarrow> finite (exact_symbol_match qu si ts rs)"
  by (auto simp: exact_symbol_match_def split: option.splits)

lemma accumulated_finite: "finite (accumulated query j)"
  by (simp add: accumulated_def Let_def partial_name_match_finite partial_symbol_match_finite
      exact_symbol_match_finite)

lemma exact_symbol_match_card: "card (exact_symbol_match qu si ts {}) \<le> 1"
  by (auto simp: exact_symbol_match_def split: option.splits)

lemma partial_symbol_match_card:
  "finite rs \<Longrightarrow> card rs < 20 \<Longrightarrow> card (partial_symbol_match q si rs) \<le> 20"
proof (induction q si rs rule: partial_symbol_match.induct)
  case (1 q rs)
  then show ?case by simp
next
  case (2 q skey tid rest rs)
  have "card (insert tid rs) \<le> Suc (card rs)" using "2.prems"(1) by (simp add: card_insert_if)
  then have le: "card (insert tid rs) \<le> 20" using "2.prems"(2) by simp
  show ?case
  proof (cases "sublist q (lower skey)")
    case False
    then show ?thesis using 2 by simp
  next
    case True
    show ?thesis
    proof (cases "20 \<le> card (insert tid rs)")
      case True
      then show ?thesis using \<open>sublist q (lower skey)\<close> le by (simp add: Let_def)
    next
      case False
      then have "card (insert tid rs) < 20" by simp
      with "2.IH"(1)[OF True refl False] "2.prems"(1) True False show ?thesis
        by (simp add: Let_def)
    qed
  qed
qed

text \<open>After tier 2 the set holds at most 20 ids.\<close>

lemma symbol_tiers_within_cap:
  "card (partial_symbol_match q si (exact_symbol_match qu si' ts {})) \<le> 20"
proof -
  have "card (exact_symbol_match qu si' ts {}) < 20"
    using exact_symbol_match_card[of qu si' ts] by simp
  then show ?thesis
    by (intro partial_symbol_match_card exact_symbol_match_finite) simp_all
qed

text \<open>An id that tier 1 adds is in the set when the tiers have run.\<close>

lemma exact_match_kept:
  assumes "symbolIndex j = Some si" "tickers j = Some ts"
    and "map_of si (upper query) = Some tid" "tid < int (length ts)"
  shows "tid \<in> accumulated query j"
proof -
  have "tid \<in> exact_symbol_match (upper query) si ts {}"
    using assms by (simp add: exact_symbol_match_def)
  then show ?thesis
    using assms partial_symbol_match_mono partial_name_match_mono
    by (simp add: accumulated_def Let_def) blast
qed

text \<open>Without a negative id, no lookup raises and the ids at or past the end are left out.\<close>

lemma getitem_in_range: "0 \<le> i \<Longrightarrow> i < int (length xs) \<Longrightarrow> getitem xs i = Inr (xs ! nat i)"
  by (simp add: getitem_def)

lemma convert_results_nonneg:
  "\<forall>i\<in>set ids. 0 \<le> i \<Longrightarrow>
   convert_results ts ids =
     Inr (map (\<lambda>i. stock_of (ts ! nat i)) (filter (\<lambda>i. i < int (length ts)) ids))"
  by (induction ids) (auto simp: getitem_in_range)

lemma load_fst:
  "fst (load_nse_json_data file st) = (case json_data st of Some j \<Rightarrow> Some j | None \<Rightarrow> file)"
  by (simp add: load_nse_json_data_def split: option.splits)

lemma search_indexed_nonneg:
  assumes "strip query \<noteq> []" "fst (load_nse_json_data file st) = Some j" "tickers j = Some ts"
    and "\<forall>i\<in>accumulated query j. 0 \<le> i"
  shows "fst (search_nse_stocks file now query st) =
           map (\<lambda>i. stock_of (ts ! nat i))
             (take 10 (filter (\<lambda>i. i < int (length ts)) (sorted_list_of_set (accumulated query j))))"
proof -
  have q: "query \<noteq> []" using assms(1) by auto
  have "\<forall>i\<in>set (sorted_list_of_set (accumulated query j)). 0 \<le> i"
    using assms(4) accumulated_finite by simp
  from convert_results_nonneg[OF this, of ts] show ?thesis
    using assms(1-3) q
    by (cases "load_nse_json_data file st")
       (simp add: search_nse_stocks_def strip_Nil_iff Let_def take_map)
qed

lemma sorted_ids: "sorted_wrt (<) (take 10 (filter P (sorted_list_of_set (A :: int set))))"
  by (intro sorted_wrt_take sorted_wrt_filter) simp

text \<open>A matching name always adds its first id, whatever the size of the set.\<close>

lemma add_ticker_ids_first: "tid \<in> add_ticker_ids (tid # rest) rs"
  using add_ticker_ids_mono[of "insert tid rs" rest] by (auto simp: Let_def)

lemma name_match_adds_first:
  "(nm, tid # rest) \<in> set ni \<Longrightarrow> sublist q nm \<Longrightarrow> tid \<in> partial_name_match q ni rs"
proof (induction q ni rs rule: partial_name_match.induct)
  case (1 q rs)
  then show ?case by simp
next
  case (2 q nm' ids ni rs)
  show ?case
  proof (cases "(nm, tid # rest) = (nm', ids)")
    case True
    then have "tid \<in> add_ticker_ids ids rs" using add_ticker_ids_first by auto
    then show ?thesis using True "2.prems"(2) partial_name_match_mono by auto
  next
    case False
    then have "(nm, tid # rest) \<in> set ni" using "2.prems"(1) by auto
    then show ?thesis using "2.IH" "2.prems"(2) by simp
  qed
qed

text \<open>With neither index, the tiers find nothing.\<close>

lemma no_indexes_empty:
  assumes "strip query \<noteq> []" "fst (load_nse_json_data file st) = Some j" "tickers j = Some ts"
    and "symbolIndex j = None" "nameIndex j = None"
  shows "fst (search_nse_stocks file now query st) = []"
proof -
  have "accumulated query j = {}"
    using assms(4,5) by (simp add: accumulated_def exact_symbol_match_def)
  then show ?thesis using search_indexed_nonneg[OF assms(1-3), of now] by simp
qed

text \<open>Lowercasing moves no space: it commutes with \<open>strip\<close>.\<close>

lemma is_space_lower_char: "is_space (lower_char c) = is_space c"
  by (cases c) (simp only: lower_char_code is_space_code split: if_splits, auto)

lemma strip_lower: "strip (lower s) = lower (strip s)"
proof -
  have comp: "is_space \<circ> lower_char = is_space" by (rule ext) (simp add: is_space_lower_char)
  have dw: "dropWhile is_space (map lower_char xs) = map lower_char (dropWhile is_space xs)" for xs
    by (simp add: dropWhile_map comp)
  show ?thesis
    unfolding strip_def lower_def by (simp add: dw rev_map)
qed

lemma strip_lower_nonempty: "strip q \<noteq> [] \<Longrightarrow> strip (lower q) \<noteq> []"
  using strip_lower[of q] by (simp add: lower_def)

text \<open>
  An id with ten accumulated ids below it, all of them below \<open>n\<close>, is not among the first
  ten of the sorted ids below \<open>n\<close>.
\<close>

lemma sorted_take_smaller:
  fixes xs :: "int list"
  assumes "sorted_wrt (<) xs" "x \<in> set (take n xs)"
  shows "card {i \<in> set xs. i < x} < n"
proof -
  from assms(2) obtain k where k: "k < n" "k < length xs" "xs ! k = x"
    by (auto simp: in_set_conv_nth)
  have "{i \<in> set xs. i < x} \<subseteq> set (take k xs)"
  proof
    fix i assume "i \<in> {i \<in> set xs. i < x}"
    then obtain m where m: "m < length xs" "xs ! m = i" "i < x"
      by (auto simp: in_set_conv_nth)
    have "m < k"
    proof (rule ccontr)
      assume "\<not> m < k"
      then have "k = m \<or> k < m" by auto
      then have "xs ! k \<le> xs ! m"
        using assms(1) m(1) by (auto simp: sorted_wrt_iff_nth_less less_imp_le)
      then show False using m k by simp
    qed
    then show "i \<in> set (take k xs)"
      using m k by (auto simp: in_set_conv_nth)
  qed
  then have "card {i \<in> set xs. i < x} \<le> card (set (take k xs))"
    by (intro card_mono) auto
  also have "\<dots> \<le> length (take k xs)" by (rule card_length)
  also have "\<dots> \<le> k" by simp
  finally show ?thesis using k(1) by simp
qed

lemma truncation_drops_large_id:
  assumes "10 \<le> card {i \<in> accumulated query j. i < n \<and> i < tid}"
  shows "tid \<notin> set (take 10 (filter (\<lambda>i. i < n) (sorted_list_of_set (accumulated query j))))"
proof
  let ?xs = "filter (\<lambda>i. i < n) (sorted_list_of_set (accumulated query j))"
  assume "tid \<in> set (take 10 ?xs)"
  moreover have "sorted_wrt (<) ?xs" by (intro sorted_wrt_filter) simp
  ultimately have "card {i \<in> set ?xs. i < tid} < 10" by (rule sorted_take_smaller[rotated])
  moreover have "{i \<in> set ?xs. i < tid} = {i \<in> accumulated query j. i < n \<and> i < tid}"
    using accumulated_finite[of query j] by auto
  ultimately show False using assms by simp
qed

section \<open>The cache\<close>

lemma initial_state_consistent: "cache_consistent initial_state"
  by (simp add: cache_consistent_def initial_state_def)

lemma fetch_result:
  assumes "cache_consistent st"
  shows "fst (fetch_nse_equity_list file now st) =
           (case fst (load_nse_json_data file st) of
              None \<Rightarrow> get_fallback_stocks
            | Some j \<Rightarrow> (case tickers j of None \<Rightarrow> get_fallback_stocks | Some ts \<Rightarrow> map stock_of ts))"
  using assms
  by (auto simp: fetch_nse_equity_list_def cache_consistent_def load_nse_json_data_def Let_def
      split: option.splits)

lemma fetch_consistent:
  assumes "cache_consistent st"
  shows "cache_consistent (snd (fetch_nse_equity_list file now st))"
  using assms
  by (auto simp: fetch_nse_equity_list_def cache_consistent_def load_nse_json_data_def Let_def
      split: option.splits)

lemma load_consistent:
  assumes "cache_consistent st"
  shows "cache_consistent (snd (load_nse_json_data file st))"
  using assms
  by (auto simp: cache_consistent_def load_nse_json_data_def split: option.splits)

lemma get_nse_indices_consistent:
  assumes "cache_consistent st"
  shows "cache_consistent (snd (get_nse_indices file now st))"
  using fetch_consistent[OF assms, of "file" now]
  by (cases "fetch_nse_equity_list file now st") (simp add: get_nse_indices_def)

lemma fallback_search_consistent:
  assumes "cache_consistent st"
  shows "cache_consistent (snd (fallback_search file now q st))"
  using fetch_consistent[OF assms, of "file" now]
  by (cases "fetch_nse_equity_list file now st") (simp add: fallback_search_def)

lemma search_consistent:
  assumes "cache_consistent st"
  shows "cache_consistent (snd (search_nse_stocks file now query st))"
proof -
  obtain jd st1 where l: "load_nse_json_data file st = (jd, st1)" by (cases "load_nse_json_data file st")
  then have "cache_consistent st1" using load_consistent[OF assms, of "file"] by simp
  then have "cache_consistent (snd (fallback_search file now q st1))" for q
    by (rule fallback_search_consistent)
  then show ?thesis using assms l \<open>cache_consistent st1\<close>
    by (auto simp: search_nse_stocks_def Let_def split: option.splits sum.splits)
qed


section \<open>The linear search\<close>

text \<open>
  Claim C4. For every query and every list of stocks, \<open>_search_in_list\<close> returns the
  first ten stocks of the list, in the order of the list, for which the (lowercased) query
  it is given occurs in the lowercased symbol or in the lowercased name. So it returns at
  most ten, an empty list gives an empty result, and what follows a part of the list that
  already holds ten matches is not looked at.
\<close>

theorem search_in_list_first_ten:
  "search_in_list q stocks =
     take 10 (filter (\<lambda>s. sublist q (lower (symbol s)) \<or> sublist q (lower (name s))) stocks)
   \<and> length (search_in_list q stocks) \<le> 10
   \<and> search_in_list q [] = []
   \<and> (10 \<le> length (filter (\<lambda>s. sublist q (lower (symbol s)) \<or> sublist q (lower (name s))) stocks)
        \<longrightarrow> search_in_list q (stocks @ rest) = search_in_list q stocks)"
  by (simp add: search_in_list_take)

text \<open>The fallback list holds more than ten names with \<open>limited\<close> in them.\<close>

theorem search_in_list_first_ten_witness:
  "10 \<le> length (filter (\<lambda>s. sublist ''limited'' (lower (symbol s)) \<or> sublist ''limited'' (lower (name s)))
                   get_fallback_stocks)
   \<and> search_in_list ''limited'' (get_fallback_stocks @ get_fallback_stocks) =
       search_in_list ''limited'' get_fallback_stocks
   \<and> length (search_in_list ''limited'' get_fallback_stocks) = 10"
proof -
  have h: "10 \<le> length (filter (\<lambda>s. sublist ''limited'' (lower (symbol s)) \<or> sublist ''limited'' (lower (name s)))
                   get_fallback_stocks)"
    by code_simp
  from search_in_list_first_ten[of "''limited''" get_fallback_stocks get_fallback_stocks] h
  show ?thesis by simp
qed

section \<open>The empty query\<close>

text \<open>
  Claim C7, amended. A query that is empty once it is stripped makes \<open>search_nse_stocks\<close>
  return the empty list at once, the state untouched. The guard is in \<open>search_nse_stocks\<close>
  only: \<open>_search_in_list\<close> itself, given the empty query, returns the first ten stocks of
  its list, since the empty string occurs in every string. \<open>search_nse_stocks\<close> never
  gives it the empty query: for a query that is not empty once stripped, the result is
  either the first ten converted results of the indexes or \<open>_search_in_list\<close> at the
  stripped, lowercased query, and that string is not empty.
\<close>

theorem empty_query:
  "(strip query = [] \<longrightarrow> search_nse_stocks file now query st = ([], st))
   \<and> search_in_list [] stocks = take 10 stocks
   \<and> (strip query \<noteq> [] \<longrightarrow>
        strip (lower query) \<noteq> []
        \<and> search_nse_stocks file now query st =
            (let st1 = snd (load_nse_json_data file st);
                 scan = (search_in_list (strip (lower query)) (fst (fetch_nse_equity_list file now st1)),
                         snd (fetch_nse_equity_list file now st1))
             in case fst (load_nse_json_data file st) of
                  None \<Rightarrow> scan
                | Some j \<Rightarrow>
                    (case tickers j of
                       None \<Rightarrow> scan
                     | Some ts \<Rightarrow>
                         (case convert_results ts (sorted_list_of_set (accumulated query j)) of
                            Inl e \<Rightarrow> scan
                          | Inr results \<Rightarrow> (take 10 results, st1)))))"
proof (intro conjI impI)
  show "search_nse_stocks file now query st = ([], st)" if "strip query = []"
    using that by (simp add: search_nse_stocks_def)
  show "search_in_list [] stocks = take 10 stocks"
    by (simp add: search_in_list_take)
  show "strip (lower query) \<noteq> []" if "strip query \<noteq> []"
    using that by (rule strip_lower_nonempty)
  show "search_nse_stocks file now query st =
            (let st1 = snd (load_nse_json_data file st);
                 scan = (search_in_list (strip (lower query)) (fst (fetch_nse_equity_list file now st1)),
                         snd (fetch_nse_equity_list file now st1))
             in case fst (load_nse_json_data file st) of
                  None \<Rightarrow> scan
                | Some j \<Rightarrow>
                    (case tickers j of
                       None \<Rightarrow> scan
                     | Some ts \<Rightarrow>
                         (case convert_results ts (sorted_list_of_set (accumulated query j)) of
                            Inl e \<Rightarrow> scan
                          | Inr results \<Rightarrow> (take 10 results, st1))))" if "strip query \<noteq> []"
  proof -
    have q: "query \<noteq> []" using that by auto
    have fb: "fallback_search file now ql s =
                (search_in_list ql (fst (fetch_nse_equity_list file now s)),
                 snd (fetch_nse_equity_list file now s))" for ql s
      by (cases "fetch_nse_equity_list file now s") (simp add: fallback_search_def)
    show ?thesis using that q
      by (cases "load_nse_json_data file st")
         (simp add: search_nse_stocks_def strip_Nil_iff Let_def fb split: option.splits sum.splits)
  qed
qed

text \<open>A blank query, and the query \<open>tcs\<close> with no file, where the helper is reached.\<close>

theorem empty_query_witness:
  "strip ''  '' = [] \<and> search_nse_stocks None 0 ''  '' initial_state = ([], initial_state)
   \<and> strip ''tcs'' \<noteq> [] \<and> strip (lower ''tcs'') \<noteq> []
   \<and> search_nse_stocks None 0 ''tcs'' initial_state =
       ([\<lparr>symbol = ''TCS'', name = ''Tata Consultancy Services Limited''\<rparr>], initial_state)"
proof -
  have h: "strip ''  '' = []" by code_simp
  have h': "strip ''tcs'' \<noteq> []" by code_simp
  have e: "(let st1 = snd (load_nse_json_data None initial_state);
                 scan = (search_in_list (strip (lower ''tcs'')) (fst (fetch_nse_equity_list None 0 st1)),
                         snd (fetch_nse_equity_list None 0 st1))
             in case fst (load_nse_json_data None initial_state) of
                  None \<Rightarrow> scan
                | Some j \<Rightarrow>
                    (case tickers j of
                       None \<Rightarrow> scan
                     | Some ts \<Rightarrow>
                         (case convert_results ts (sorted_list_of_set (accumulated ''tcs'' j)) of
                            Inl e \<Rightarrow> scan
                          | Inr results \<Rightarrow> (take 10 results, st1)))) =
       ([\<lparr>symbol = ''TCS'', name = ''Tata Consultancy Services Limited''\<rparr>], initial_state)"
    by code_simp
  from empty_query[of "''  ''" None 0 initial_state] h
  have a: "search_nse_stocks None 0 ''  '' initial_state = ([], initial_state)" by simp
  from empty_query[of "''tcs''" None 0 initial_state] h'
  have b: "strip (lower ''tcs'') \<noteq> []"
    and c: "search_nse_stocks None 0 ''tcs'' initial_state =
       ([\<lparr>symbol = ''TCS'', name = ''Tata Consultancy Services Limited''\<rparr>], initial_state)"
    unfolding e by blast+
  from h h' a b c show ?thesis by simp
qed

text \<open>Claim C7 as it is written fails on a list of one stock.\<close>

theorem empty_query_linear_counterexample:
  "search_in_list '''' [\<lparr>symbol = ''TCS'', name = ''Tata Consultancy Services Limited''\<rparr>] \<noteq> []"
  by (simp add: search_in_list_def)

section \<open>Search without JSON data\<close>

text \<open>
  Claim C5, amended. When no JSON data can be loaded and nothing is cached,
  \<open>search_nse_stocks\<close>, for a query that is not empty once stripped, scans the hardcoded
  fallback list: it returns what \<open>_search_in_list\<close> finds there, and leaves the state as
  it was.
\<close>

theorem no_catalog_search:
  assumes "strip query \<noteq> []" "json_data st = None" "nse_stocks_cache st = None"
  shows "search_nse_stocks None now query st =
           (search_in_list (strip (lower query)) get_fallback_stocks, st)"
proof -
  have "query \<noteq> []" using assms(1) by auto
  then show ?thesis using assms
    by (simp add: search_nse_stocks_def strip_Nil_iff load_nse_json_data_def fallback_search_def
        fetch_nse_equity_list_def)
qed

theorem no_catalog_search_witness:
  "strip ''tcs'' \<noteq> [] \<and> json_data initial_state = None \<and> nse_stocks_cache initial_state = None
   \<and> search_nse_stocks None 0 ''tcs'' initial_state =
       ([\<lparr>symbol = ''TCS'', name = ''Tata Consultancy Services Limited''\<rparr>], initial_state)"
proof -
  have h1: "strip ''tcs'' \<noteq> []" by code_simp
  have h2: "json_data initial_state = None" by (simp add: initial_state_def)
  have h3: "nse_stocks_cache initial_state = None" by (simp add: initial_state_def)
  have e: "search_in_list (strip (lower ''tcs'')) get_fallback_stocks =
             [\<lparr>symbol = ''TCS'', name = ''Tata Consultancy Services Limited''\<rparr>]"
    by code_simp
  from no_catalog_search[OF h1 h2 h3, of 0] e h1 h2 h3 show ?thesis by simp
qed

text \<open>Claim C5 as it is written fails for the query \<open>tcs\<close>: the result is not empty.\<close>

theorem no_catalog_search_counterexample:
  "fst (search_nse_stocks None 0 ''tcs'' initial_state) \<noteq> []"
  by code_simp

section \<open>Popular stocks\<close>

text \<open>
  Claim C9. \<open>get_nse_indices\<close> returns the first 25 tickers of the loaded JSON data, as
  stocks, when the data has a ticker list that is not empty; when there is no data, no
  ticker list, or an empty one, it returns the hardcoded list, which has 25 entries, from
  \<open>RELIANCE\<close> to \<open>DIVISLAB\<close>. The state is any state with a consistent cache, which
  is every state that calls of the module reach from \<^const>\<open>initial_state\<close>.
\<close>

theorem get_nse_indices_result:
  assumes "cache_consistent st"
  shows "fst (get_nse_indices file now st) =
           (case fst (load_nse_json_data file st) of
              None \<Rightarrow> get_fallback_stocks
            | Some j \<Rightarrow>
                (case tickers j of
                   None \<Rightarrow> get_fallback_stocks
                 | Some ts \<Rightarrow> if ts = [] then get_fallback_stocks else map stock_of (take 25 ts)))
         \<and> length get_fallback_stocks = 25
         \<and> symbol (hd get_fallback_stocks) = ''RELIANCE''
         \<and> symbol (last get_fallback_stocks) = ''DIVISLAB''"
proof -
  have "fst (get_nse_indices file now st) =
          (let all_stocks = fst (fetch_nse_equity_list file now st)
           in if all_stocks = [] then get_fallback_stocks else take 25 all_stocks)"
    by (cases "fetch_nse_equity_list file now st") (simp add: get_nse_indices_def)
  moreover have "length get_fallback_stocks = 25" by (simp add: get_fallback_stocks_def)
  moreover have "symbol (hd get_fallback_stocks) = ''RELIANCE''" by (simp add: get_fallback_stocks_def)
  moreover have "symbol (last get_fallback_stocks) = ''DIVISLAB''" by (simp add: get_fallback_stocks_def)
  moreover have "get_fallback_stocks \<noteq> []" by (simp add: get_fallback_stocks_def)
  ultimately show ?thesis
    by (simp add: fetch_result[OF assms] Let_def take_map split: option.splits)
qed

theorem get_nse_indices_result_witness:
  "cache_consistent initial_state
   \<and> fst (get_nse_indices (Some (create_search_json sample_rows)) 0 initial_state) =
       [\<lparr>symbol = ''TCS'', name = ''Tata Consultancy Services Limited''\<rparr>,
        \<lparr>symbol = ''RELIANCE'', name = ''Reliance Industries Limited''\<rparr>]
   \<and> fst (get_nse_indices None 0 initial_state) = get_fallback_stocks"
proof -
  have h: "cache_consistent initial_state" by (rule initial_state_consistent)
  have e1: "(case fst (load_nse_json_data (Some (create_search_json sample_rows)) initial_state) of
              None \<Rightarrow> get_fallback_stocks
            | Some j \<Rightarrow>
                (case tickers j of
                   None \<Rightarrow> get_fallback_stocks
                 | Some ts \<Rightarrow> if ts = [] then get_fallback_stocks else map stock_of (take 25 ts))) =
       [\<lparr>symbol = ''TCS'', name = ''Tata Consultancy Services Limited''\<rparr>,
        \<lparr>symbol = ''RELIANCE'', name = ''Reliance Industries Limited''\<rparr>]"
    by code_simp
  have e2: "fst (load_nse_json_data None initial_state) = None"
    by (simp add: load_nse_json_data_def initial_state_def)
  from get_nse_indices_result[OF h, of "Some (create_search_json sample_rows)" 0]
  have "fst (get_nse_indices (Some (create_search_json sample_rows)) 0 initial_state) =
       [\<lparr>symbol = ''TCS'', name = ''Tata Consultancy Services Limited''\<rparr>,
        \<lparr>symbol = ''RELIANCE'', name = ''Reliance Industries Limited''\<rparr>]"
    unfolding e1 by (rule conjunct1)
  moreover from get_nse_indices_result[OF h, of None 0]
  have "fst (get_nse_indices None 0 initial_state) = get_fallback_stocks"
    unfolding e2 by simp
  ultimately show ?thesis using h by simp
qed

section \<open>The indexed search\<close>

text \<open>The scenario of section 8 of the specification, on the file built from its two rows.\<close>

lemma scenario_section_8:
  "(let file = Some (create_search_json sample_rows) in
     fst (search_nse_stocks file 0 ''tcs'' initial_state) =
       [\<lparr>symbol = ''TCS'', name = ''Tata Consultancy Services Limited''\<rparr>]
     \<and> fst (search_nse_stocks file 0 ''reliance'' initial_state) =
       [\<lparr>symbol = ''RELIANCE'', name = ''Reliance Industries Limited''\<rparr>]
     \<and> fst (search_nse_stocks file 0 ''xyz'' initial_state) = [])"
  by code_simp

text \<open>
  Claim C10. There are a query and a file for which tier 1 adds the id of the exact symbol
  match to the accumulated set and the ticker of that id is not in the result. In the file
  built from \<open>TCSA\<close>, ..., \<open>TCST\<close>, \<open>TCS\<close>, the query \<open>tcs\<close> is the symbol of
  ticker 20: tier 1 adds exactly the id 20, tiers 2 and 3 alone would not add it, every
  accumulated id is in range and nineteen of them are smaller than 20; the result is the
  tickers 0 to 9 and does not hold ticker 20. The lemma \<open>truncation_drops_large_id\<close> is
  the general reason: an id with ten valid accumulated ids below it is cut off.
\<close>

theorem exact_match_truncated:
  "\<exists>query j ts si ni tid.
     tickers j = Some ts \<and> symbolIndex j = Some si \<and> nameIndex j = Some ni
     \<and> map_of si (upper query) = Some tid \<and> 0 \<le> tid \<and> tid < int (length ts)
     \<and> exact_symbol_match (upper query) si ts {} = {tid}
     \<and> tid \<notin> partial_name_match (strip (lower query)) ni
                (partial_symbol_match (strip (lower query)) si {})
     \<and> tid \<in> accumulated query j
     \<and> accumulated query j \<subseteq> {0 ..< int (length ts)}
     \<and> 10 \<le> card {i \<in> accumulated query j. i < tid}
     \<and> fst (search_nse_stocks (Some j) 0 query initial_state) =
         map (\<lambda>i. stock_of (ts ! nat i)) [0, 1, 2, 3, 4, 5, 6, 7, 8, 9]
     \<and> stock_of (ts ! nat tid) \<notin> set (fst (search_nse_stocks (Some j) 0 query initial_state))"
proof -
  let ?j = "create_search_json (crowd_rows @ [tcs_row])"
  let ?ts = "case tickers ?j of None \<Rightarrow> [] | Some ts \<Rightarrow> ts"
  let ?si = "case symbolIndex ?j of None \<Rightarrow> [] | Some si \<Rightarrow> si"
  let ?ni = "case nameIndex ?j of None \<Rightarrow> [] | Some ni \<Rightarrow> ni"
  have "tickers ?j = Some ?ts" by code_simp
  moreover have "symbolIndex ?j = Some ?si" by code_simp
  moreover have "nameIndex ?j = Some ?ni" by code_simp
  moreover have "map_of ?si (upper ''tcs'') = Some 20" by code_simp
  moreover have "(20::int) < int (length ?ts)" by code_simp
  moreover have "exact_symbol_match (upper ''tcs'') ?si ?ts {} = {20}" by code_simp
  moreover have "20 \<notin> partial_name_match (strip (lower ''tcs'')) ?ni
                (partial_symbol_match (strip (lower ''tcs'')) ?si {})" by code_simp
  moreover have acc: "accumulated ''tcs'' ?j = {0, 1, 2, 3, 4, 5, 6, 7, 8, 9, 10, 11, 12, 13, 14, 15, 16, 17, 18, 20}"
    by code_simp
  moreover have "accumulated ''tcs'' ?j \<subseteq> {0 ..< int (length ?ts)}"
  proof -
    have "length ?ts = 21" by code_simp
    then show ?thesis unfolding acc by auto
  qed
  moreover have "10 \<le> card {i \<in> accumulated ''tcs'' ?j. i < 20}" by code_simp
  moreover have "fst (search_nse_stocks (Some ?j) 0 ''tcs'' initial_state) =
         map (\<lambda>i. stock_of (?ts ! nat i)) [0, 1, 2, 3, 4, 5, 6, 7, 8, 9]" by code_simp
  moreover have "stock_of (?ts ! nat 20) \<notin> set (fst (search_nse_stocks (Some ?j) 0 ''tcs'' initial_state))"
    by code_simp
  ultimately show ?thesis
    by (intro exI[of _ "''tcs''"] exI[of _ ?j] exI[of _ ?ts] exI[of _ ?si] exI[of _ ?ni] exI[of _ 20])
       simp
qed

text \<open>
  Claim C2 fails on the code. In the file built from 21 rows whose names all hold \<open>co\<close>
  (and whose symbols do not), the query \<open>co\<close> leaves 21 ids in the accumulated set: the
  \<open>break\<close> of tier 3 leaves the inner loop only, so the name after the twentieth adds its
  id too.
\<close>

theorem name_scan_exceeds_cap:
  "card (accumulated ''co'' (create_search_json company_rows)) = 21"
  by code_simp

text \<open>
  Claim C3 fails on the code. In the file built from \<open>TCSA\<close>, ..., \<open>TCST\<close>, \<open>TCS\<close>, the
  query \<open>tcs\<close> with a space before it, once stripped and uppercased, is the symbol of
  ticker 20, which is in range; tier 1 looks up the uppercased query as it came, finds
  nothing, and tier 2 stops at twenty ids before it reaches the key \<open>TCS\<close>: 20 is not in the
  accumulated set. Without the space it is.
\<close>

theorem untrimmed_exact_match_missed:
  "(let j = create_search_json (crowd_rows @ [tcs_row]) in
     map_of (case symbolIndex j of None \<Rightarrow> [] | Some si \<Rightarrow> si) (upper (strip '' tcs'')) = Some 20
     \<and> length (case tickers j of None \<Rightarrow> [] | Some ts \<Rightarrow> ts) = 21
     \<and> 20 \<notin> accumulated '' tcs'' j
     \<and> 20 \<in> accumulated ''tcs'' j)"
  by code_simp

text \<open>
  Claim C1 fails on the code. With the key \<open>REL\<close> of id -1 added to the symbol index of the
  two-ticker file, the query \<open>rel\<close> accumulates the ids -1 and 1; both pass the test
  \<open>ticker_id < len(tickers)\<close>, and \<open>tickers[-1]\<close> is the last ticker, so the result lists
  \<open>RELIANCE\<close> twice: it is neither free of duplicates nor strictly ascending by ticker id.
  Without a negative id the claim holds (\<open>search_indexed_nonneg\<close>, \<open>sorted_ids\<close>).
\<close>

theorem negative_id_listed_twice:
  "accumulated ''rel'' (edited_json ''REL'' (- 1)) = {- 1, 1}
   \<and> fst (search_nse_stocks (Some (edited_json ''REL'' (- 1))) 0 ''rel'' initial_state) =
       [\<lparr>symbol = ''RELIANCE'', name = ''Reliance Industries Limited''\<rparr>,
        \<lparr>symbol = ''RELIANCE'', name = ''Reliance Industries Limited''\<rparr>]"
  by code_simp

text \<open>
  Claim C8 fails on the code. With the key \<open>TCSX\<close> of id -1 added to the symbol index of the
  two-ticker file, the query \<open>tcs\<close> accumulates the ids -1 and 0. The id -1 is outside the
  range of the list and is not skipped: the result holds \<open>RELIANCE\<close>, the last ticker,
  before \<open>TCS\<close>. The same key with the id 2, at the end of the list, is skipped.
\<close>

theorem negative_id_not_skipped:
  "accumulated ''tcs'' (edited_json ''TCSX'' (- 1)) = {- 1, 0}
   \<and> fst (search_nse_stocks (Some (edited_json ''TCSX'' (- 1))) 0 ''tcs'' initial_state) =
       [\<lparr>symbol = ''RELIANCE'', name = ''Reliance Industries Limited''\<rparr>,
        \<lparr>symbol = ''TCS'', name = ''Tata Consultancy Services Limited''\<rparr>]
   \<and> fst (search_nse_stocks (Some (edited_json ''TCSX'' 2)) 0 ''tcs'' initial_state) =
       [\<lparr>symbol = ''TCS'', name = ''Tata Consultancy Services Limited''\<rparr>]"
  by code_simp

text \<open>
  Claim C6 fails on the code. On the two-ticker file without its two indexes, the query
  \<open>tcs\<close> returns nothing, while \<open>_search_in_list\<close> on the ticker list finds \<open>TCS\<close>: the
  missing indexes are read as empty ones and the three tiers run on them
  (\<open>no_indexes_empty\<close>); the linear scan is not called.
\<close>

theorem missing_indexes_not_linear:
  "fst (search_nse_stocks (Some ((create_search_json sample_rows)\<lparr>symbolIndex := None, nameIndex := None\<rparr>))
          0 ''tcs'' initial_state) = []
   \<and> search_in_list ''tcs''
        (map stock_of (case tickers (create_search_json sample_rows) of None \<Rightarrow> [] | Some ts \<Rightarrow> ts)) =
       [\<lparr>symbol = ''TCS'', name = ''Tata Consultancy Services Limited''\<rparr>]"
  by code_simp

end
